theory Spec2Isabelle
  imports Complex_Main
begin

section \<open>Console output\<close>

text \<open>
  Every \<open>print\<close> of the source appends one line to the console. An operation of the
  model returns the lines it printed, in order, next to its result.
\<close>

type_synonym console = "string list"

section \<open>Task 1: user storage (\<open>tasks/task_1.py\<close>)\<close>

text \<open>
  \<open>UserManager\<close> owns one dictionary \<open>_users\<close> from user identifiers to email
  addresses. Identifiers and addresses are strings, so the f-string of \<open>add_user\<close>
  inserts them as they are.
\<close>

record UserManager =
  users :: "string \<rightharpoonup> string"

definition UserManager_init :: UserManager where
  "UserManager_init = \<lparr>users = Map.empty\<rparr>"

definition add_user :: "UserManager \<Rightarrow> string \<Rightarrow> string \<Rightarrow> UserManager \<times> console" where
  "add_user m user_id email =
     (m\<lparr>users := (users m)(user_id \<mapsto> email)\<rparr>,
      [''Adding user '' @ user_id @ '' with email '' @ email])"

text \<open>\<open>dict.get\<close>: the stored value, or \<open>None\<close> for a missing key.\<close>

definition get_user_email :: "UserManager \<Rightarrow> string \<Rightarrow> string option" where
  "get_user_email m user_id = users m user_id"

definition remove_user :: "UserManager \<Rightarrow> string \<Rightarrow> UserManager \<times> console" where
  "remove_user m user_id =
     (if user_id \<in> dom (users m)
      then (m\<lparr>users := (users m)(user_id := None)\<rparr>, [''Removing user '' @ user_id])
      else (m, []))"

text \<open>
  \<open>EmailNotifier\<close> is given what \<open>get_user_email\<close> returned. \<open>None\<close> and the empty
  string count as false: for them it prints that no email was found.
\<close>

definition send_notification_email :: "string option \<Rightarrow> string \<Rightarrow> console" where
  "send_notification_email email message =
     (case email of
        None \<Rightarrow> [''Could not send email: Email not found.'']
      | Some address \<Rightarrow>
          if address = [] then [''Could not send email: Email not found.'']
          else [''Attempting to send email to '' @ address @ '': '' @
                  [CHR 0x27] @ message @ [CHR 0x27],
                ''Simulated email sent.''])"

section \<open>Python numbers\<close>

text \<open>
  Tasks 2 and 3 multiply numbers. A Python number is an unbounded \<open>int\<close> or a \<open>float\<close>,
  an IEEE 754 binary64 value. A finite float is kept as its sign bit (\<open>True\<close> for minus)
  and the exact rational magnitude it stands for; the zeros are \<open>Finite False 0\<close> and
  \<open>Finite True 0\<close>.
\<close>

datatype double = Finite bool rat | Infinity bool | NaN

datatype pynum = PyInt int | PyFloat double

datatype error = OverflowError | AttributeError | TypeError | Exception string

text \<open>The number of binary digits of a positive integer, \<open>0\<close> for the others.\<close>

function bit_length :: "int \<Rightarrow> nat" where
  "bit_length n = (if n \<le> 0 then 0 else Suc (bit_length (n div 2)))"
  by pat_completeness auto
termination
  by (relation "measure nat") auto

declare bit_length.simps [simp del]

text \<open>Rounding to the nearest integer, a tie going to the even neighbour.\<close>

definition round_half_even :: "rat \<Rightarrow> int" where
  "round_half_even q =
     (let f = \<lfloor>q\<rfloor>; d = q - of_int f
      in if d < 1 / 2 then f
         else if 1 / 2 < d then f + 1
         else if even f then f else f + 1)"

text \<open>
  Rounding a magnitude \<open>x \<ge> 0\<close> to binary64, round-to-nearest-even. The magnitude is
  scaled by \<open>2 ^ 1074\<close>, so that the smallest subnormal is \<open>1\<close>; a scaled value of more
  than 53 binary digits is rounded at its 53rd digit, a smaller one (a subnormal) at
  the unit. \<open>None\<close> stands for a rounded magnitude beyond the largest float.
\<close>

definition round_magnitude :: "rat \<Rightarrow> rat option" where
  "round_magnitude x =
     (let y = x * 2 ^ 1074;
          l = bit_length \<lfloor>y\<rfloor>;
          e = (if l \<le> 53 then 0 else l - 53);
          r = of_int (round_half_even (y / 2 ^ e)) * 2 ^ e / 2 ^ 1074
      in if 2 ^ 1024 \<le> r then None else Some r)"

text \<open>A float literal such as \<open>0.05\<close> is the float nearest to its decimal value.\<close>

definition float_literal :: "rat \<Rightarrow> double" where
  "float_literal q =
     (case round_magnitude \<bar>q\<bar> of
        None \<Rightarrow> Infinity (q < 0)
      | Some r \<Rightarrow> Finite (q < 0) r)"

text \<open>
  \<open>int\<close> to \<open>float\<close>, as Python converts the \<open>int\<close> operand of a mixed product: an
  \<open>int\<close> too large for a float raises \<open>OverflowError\<close>.
\<close>

definition float_of_int :: "int \<Rightarrow> error + double" where
  "float_of_int n =
     (case round_magnitude (of_int \<bar>n\<bar>) of
        None \<Rightarrow> Inl OverflowError
      | Some r \<Rightarrow> Inr (Finite (n < 0) r))"

text \<open>
  The product of two floats: it never raises, a product beyond the range is an
  infinity, and infinity times zero is not a number.
\<close>

fun double_mul :: "double \<Rightarrow> double \<Rightarrow> double" where
  "double_mul NaN _ = NaN"
| "double_mul _ NaN = NaN"
| "double_mul (Infinity s) (Infinity t) = Infinity (s \<noteq> t)"
| "double_mul (Infinity s) (Finite t q) = (if q = 0 then NaN else Infinity (s \<noteq> t))"
| "double_mul (Finite s p) (Infinity t) = (if p = 0 then NaN else Infinity (s \<noteq> t))"
| "double_mul (Finite s p) (Finite t q) =
     (case round_magnitude (p * q) of
        None \<Rightarrow> Infinity (s \<noteq> t)
      | Some r \<Rightarrow> Finite (s \<noteq> t) r)"

text \<open>Python's \<open>a * b\<close> on numbers.\<close>

fun py_mul :: "pynum \<Rightarrow> pynum \<Rightarrow> error + pynum" where
  "py_mul (PyInt a) (PyInt b) = Inr (PyInt (a * b))"
| "py_mul (PyInt a) (PyFloat y) =
     (case float_of_int a of Inl e \<Rightarrow> Inl e | Inr x \<Rightarrow> Inr (PyFloat (double_mul x y)))"
| "py_mul (PyFloat x) (PyInt b) =
     (case float_of_int b of Inl e \<Rightarrow> Inl e | Inr y \<Rightarrow> Inr (PyFloat (double_mul x y)))"
| "py_mul (PyFloat x) (PyFloat y) = Inr (PyFloat (double_mul x y))"


section \<open>Task 2: discount strategies (\<open>tasks/task_2.py\<close>)\<close>

text \<open>
  The strategies print the discount after a fixed text. The decimal digits Python
  prints for a float are not modelled: a printed line is the text and the number
  that follows it.
\<close>

type_synonym number_line = "string \<times> pynum"

text \<open>
  An object of a subclass of the abstract class \<open>DiscountStrategy\<close> is the record of
  what the calculator uses of it: its truth value (the calculator tests
  \<open>if strategy:\<close>; an object is true unless its class says otherwise, and none of the
  three classes of the source does) and its method \<open>calculate_discount\<close>, which
  returns a number or raises, and prints.
\<close>

record DiscountStrategy =
  truthy :: bool
  strategy_calculate_discount :: "pynum \<Rightarrow> (error + pynum) \<times> number_line list"

definition RegularDiscount_calculate_discount ::
  "pynum \<Rightarrow> (error + pynum) \<times> number_line list" where
  "RegularDiscount_calculate_discount amount =
     (case py_mul amount (PyFloat (float_literal (5 / 100))) of
        Inl e \<Rightarrow> (Inl e, [])
      | Inr discount \<Rightarrow> (Inr discount, [(''Applying 5% regular discount: '', discount)]))"

definition VIPDiscount_calculate_discount ::
  "pynum \<Rightarrow> (error + pynum) \<times> number_line list" where
  "VIPDiscount_calculate_discount amount =
     (case py_mul amount (PyFloat (float_literal (15 / 100))) of
        Inl e \<Rightarrow> (Inl e, [])
      | Inr discount \<Rightarrow> (Inr discount, [(''Applying 15% VIP discount: '', discount)]))"

definition PremiumDiscount_calculate_discount ::
  "pynum \<Rightarrow> (error + pynum) \<times> number_line list" where
  "PremiumDiscount_calculate_discount amount =
     (case py_mul amount (PyFloat (float_literal (10 / 100))) of
        Inl e \<Rightarrow> (Inl e, [])
      | Inr discount \<Rightarrow> (Inr discount, [(''Applying 10% premium discount: '', discount)]))"

definition RegularDiscount :: DiscountStrategy where
  "RegularDiscount =
     \<lparr>truthy = True, strategy_calculate_discount = RegularDiscount_calculate_discount\<rparr>"

definition VIPDiscount :: DiscountStrategy where
  "VIPDiscount =
     \<lparr>truthy = True, strategy_calculate_discount = VIPDiscount_calculate_discount\<rparr>"

definition PremiumDiscount :: DiscountStrategy where
  "PremiumDiscount =
     \<lparr>truthy = True, strategy_calculate_discount = PremiumDiscount_calculate_discount\<rparr>"

text \<open>The calculator owns the dictionary \<open>_strategies\<close>, filled by its constructor.\<close>

record DiscountCalculator =
  strategies :: "string \<rightharpoonup> DiscountStrategy"

definition DiscountCalculator_init :: DiscountCalculator where
  "DiscountCalculator_init =
     \<lparr>strategies = [''Regular'' \<mapsto> RegularDiscount,
                     ''VIP'' \<mapsto> VIPDiscount,
                     ''Premium'' \<mapsto> PremiumDiscount]\<rparr>"

definition calculate_discount ::
  "DiscountCalculator \<Rightarrow> string \<Rightarrow> pynum \<Rightarrow> (error + pynum) \<times> number_line list" where
  "calculate_discount c customer_type amount =
     (case strategies c customer_type of
        None \<Rightarrow> (Inr (PyInt 0), [])
      | Some strategy \<Rightarrow>
          if truthy strategy then strategy_calculate_discount strategy amount
          else (Inr (PyInt 0), []))"

text \<open>
  The names the class body of \<open>DiscountCalculator\<close> defines. The class has no base
  class but \<open>object\<close>, so these are all the methods of a calculator that the
  repository writes.
\<close>

definition DiscountCalculator_methods :: "string list" where
  "DiscountCalculator_methods = [''__init__'', ''calculate_discount'']"

section \<open>Task 3: shapes (\<open>tasks/task_3.py\<close>)\<close>

text \<open>
  \<open>Rectangle\<close> has the attributes \<open>_width\<close> and \<open>_height\<close>, \<open>Square\<close> the attribute
  \<open>_size\<close>; the properties read and write them. Neither class inherits the other.
\<close>

record Rectangle =
  rect_width :: pynum
  rect_height :: pynum

record Square =
  square_size :: pynum

definition Rectangle_init :: "pynum \<Rightarrow> pynum \<Rightarrow> Rectangle" where
  "Rectangle_init width height = \<lparr>rect_width = width, rect_height = height\<rparr>"

definition Rectangle_width :: "Rectangle \<Rightarrow> pynum" where
  "Rectangle_width r = rect_width r"

definition Rectangle_set_width :: "Rectangle \<Rightarrow> pynum \<Rightarrow> Rectangle" where
  "Rectangle_set_width r v = r\<lparr>rect_width := v\<rparr>"

definition Rectangle_height :: "Rectangle \<Rightarrow> pynum" where
  "Rectangle_height r = rect_height r"

definition Rectangle_set_height :: "Rectangle \<Rightarrow> pynum \<Rightarrow> Rectangle" where
  "Rectangle_set_height r v = r\<lparr>rect_height := v\<rparr>"

definition Rectangle_calculate_area :: "Rectangle \<Rightarrow> error + pynum" where
  "Rectangle_calculate_area r = py_mul (rect_width r) (rect_height r)"

definition Square_init :: "pynum \<Rightarrow> Square" where
  "Square_init sz = \<lparr>square_size = sz\<rparr>"

definition Square_size :: "Square \<Rightarrow> pynum" where
  "Square_size s = square_size s"

definition Square_set_size :: "Square \<Rightarrow> pynum \<Rightarrow> Square" where
  "Square_set_size s v = s\<lparr>square_size := v\<rparr>"

definition Square_calculate_area :: "Square \<Rightarrow> error + pynum" where
  "Square_calculate_area s = py_mul (square_size s) (square_size s)"

text \<open>
  A \<open>Shape\<close> is an object of one of the two concrete classes; \<open>calculate_area\<close>
  dispatches on its class, and \<open>print_area\<close> prints what it returns.
\<close>

datatype Shape = A_Rectangle Rectangle | A_Square Square

fun calculate_area :: "Shape \<Rightarrow> error + pynum" where
  "calculate_area (A_Rectangle r) = Rectangle_calculate_area r"
| "calculate_area (A_Square s) = Square_calculate_area s"

definition print_area :: "Shape \<Rightarrow> (error + unit) \<times> number_line list" where
  "print_area shape =
     (case calculate_area shape of
        Inl e \<Rightarrow> (Inl e, [])
      | Inr area \<Rightarrow> (Inr (), [(''Area: '', area)]))"

section \<open>Task 4: segregated worker interfaces (\<open>tasks/task_4.py\<close>)\<close>

text \<open>
  The five classes of the module. A method body is either the \<open>pass\<close> of an abstract
  method or one \<open>print\<close>. The workers have no attributes, so an object is known by
  its class.
\<close>

datatype cls = IWorkable | IEatable | ISleepable | HumanWorker | RobotWorker

datatype body = Abstract_pass | Prints string

fun class_body :: "cls \<Rightarrow> (string \<times> body) list" where
  "class_body IWorkable = [(''work'', Abstract_pass)]"
| "class_body IEatable = [(''eat'', Abstract_pass)]"
| "class_body ISleepable = [(''sleep'', Abstract_pass)]"
| "class_body HumanWorker =
     [(''work'', Prints ''Human working...''),
      (''eat'', Prints ''Human eating...''),
      (''sleep'', Prints ''Human sleeping...'')]"
| "class_body RobotWorker = [(''work'', Prints ''Robot working...'')]"

text \<open>The base classes as written; \<open>ABC\<close>, which defines no method, is left out.\<close>

fun bases :: "cls \<Rightarrow> cls list" where
  "bases HumanWorker = [IWorkable, IEatable, ISleepable]"
| "bases RobotWorker = [IWorkable]"
| "bases _ = []"

text \<open>
  The method resolution order: the bases of a class have no base of their own in
  this module, so it is the class followed by its bases in the order written.
  \<open>ABC\<close> and \<open>object\<close>, which end the order in Python, are left out: they define none
  of \<open>work\<close>, \<open>eat\<close> and \<open>sleep\<close>, the names this module adds, and the lookup below
  is for these names; it does not answer for a name inherited from \<open>object\<close>.
\<close>

definition mro :: "cls \<Rightarrow> cls list" where
  "mro c = c # bases c"

definition isinstance :: "cls \<Rightarrow> cls \<Rightarrow> bool" where
  "isinstance obj_class c = (c \<in> set (mro obj_class))"

text \<open>Attribute lookup on an object: the first class of the order that defines the name.\<close>

definition lookup_method :: "cls \<Rightarrow> string \<Rightarrow> body option" where
  "lookup_method c name = map_of (concat (map class_body (mro c))) name"

text \<open>
  \<open>obj.name()\<close> at run time: \<open>AttributeError\<close> when no class of the order defines
  \<open>name\<close>, else the lines the body prints.
\<close>

definition invoke :: "cls \<Rightarrow> string \<Rightarrow> error + console" where
  "invoke c name =
     (case lookup_method c name of
        None \<Rightarrow> Inl AttributeError
      | Some Abstract_pass \<Rightarrow> Inr []
      | Some (Prints line) \<Rightarrow> Inr [line])"

text \<open>
  A class with an abstract method left unimplemented cannot be instantiated:
  calling it raises \<open>TypeError\<close>.
\<close>

definition abstract_methods :: "cls \<Rightarrow> string list" where
  "abstract_methods c =
     filter (\<lambda>name. lookup_method c name = Some Abstract_pass)
       (map fst (concat (map class_body (mro c))))"

definition instantiate :: "cls \<Rightarrow> error + cls" where
  "instantiate c = (if abstract_methods c = [] then Inr c else Inl TypeError)"

section \<open>Task 5: injected message sender (\<open>tasks/task_5.py\<close>)\<close>

text \<open>
  An object of a subclass of \<open>IMessageSender\<close> is its method \<open>send\<close>: from the
  recipient and the message to what it returns (or the exception it raises) and the
  lines it prints.
\<close>

record 'r IMessageSender =
  send :: "string \<Rightarrow> string \<Rightarrow> (error + 'r) \<times> console"

definition EmailSender :: "unit IMessageSender" where
  "EmailSender =
     \<lparr>send = (\<lambda>recipient message.
        (Inr (), [''Sending email to '' @ recipient @ '': '' @ [CHR 0x27] @ message @ [CHR 0x27]]))\<rparr>"

definition SMSSender :: "unit IMessageSender" where
  "SMSSender =
     \<lparr>send = (\<lambda>recipient message.
        (Inr (), [''Sending SMS to '' @ recipient @ '': '' @ [CHR 0x27] @ message @ [CHR 0x27]]))\<rparr>"

record 'r NotificationService =
  sender :: "'r IMessageSender"

definition NotificationService_init :: "'r IMessageSender \<Rightarrow> 'r NotificationService" where
  "NotificationService_init message_sender = \<lparr>sender = message_sender\<rparr>"

text \<open>
  \<open>send_notification\<close> prints its line, calls \<open>send\<close> of the stored sender and drops
  what \<open>send\<close> returns; an exception of \<open>send\<close> passes through.
\<close>

definition send_notification ::
  "'r NotificationService \<Rightarrow> string \<Rightarrow> string \<Rightarrow> string \<Rightarrow> (error + unit) \<times> console" where
  "send_notification svc user contact message =
     (let line = ''Processing notification for '' @ user @ ''...'';
          (res, out) = send (sender svc) contact message
      in (case res of Inl e \<Rightarrow> Inl e | Inr _ \<Rightarrow> Inr (), line # out))"

section \<open>Rounding in the normal range\<close>

text \<open>
  What \<open>round_magnitude\<close> does to a magnitude of the normal range, without the
  scaling: with \<open>x * 2 ^ j\<close> between \<open>2 ^ 52\<close> and \<open>2 ^ 53\<close>, the result is \<open>x * 2 ^ j\<close>
  rounded to an integer, over \<open>2 ^ j\<close>. The concrete products below are evaluated
  through it.
\<close>

lemma bit_length_eq: "2 ^ k \<le> n \<Longrightarrow> n < 2 ^ Suc k \<Longrightarrow> bit_length n = Suc k"
proof (induction k arbitrary: n)
  case 0
  then have "n = 1" by simp
  then show ?case by (simp add: bit_length.simps)
next
  case (Suc k)
  have "(0::int) < 2 ^ Suc k" by simp
  with Suc.prems(1) have pos: "0 < n" by linarith
  have "2 ^ k \<le> n div 2" using Suc.prems(1) by simp
  moreover have "n div 2 < 2 ^ Suc k" using Suc.prems(2) by simp
  ultimately have "bit_length (n div 2) = Suc k" by (rule Suc.IH)
  with pos show ?case by (subst bit_length.simps) simp
qed

lemma round_half_even_le_int: "q \<le> of_int a \<Longrightarrow> round_half_even q \<le> a"
  unfolding round_half_even_def Let_def by (auto simp: floor_le_iff; linarith)

lemma round_half_even_near:
  "\<bar>of_int (round_half_even q) - q\<bar> \<le> 1 / 2"
  using of_int_floor_le [of q] floor_correct [of q]
  unfolding round_half_even_def Let_def by (auto simp: abs_le_iff)


lemma round_magnitude_normal:
  assumes j: "j \<le> 1074" and lo: "2 ^ 52 \<le> x * 2 ^ j" and hi: "x * 2 ^ j < 2 ^ 53"
  shows "round_magnitude x = Some (of_int (round_half_even (x * 2 ^ j)) / 2 ^ j)"
proof -
  define k where "k = 1074 - j"
  define y where "y = x * 2 ^ 1074"
  define m where "m = round_half_even (x * 2 ^ j)"
  have pow: "(2::rat) ^ 1074 = 2 ^ j * 2 ^ k"
  proof -
    have "j + k = 1074" using j by (simp add: k_def)
    then show ?thesis by (simp only: flip: power_add)
  qed
  have y: "y = (x * 2 ^ j) * 2 ^ k"
    unfolding y_def pow by simp
  have "2 ^ 52 * 2 ^ k \<le> y"
    unfolding y using lo by (simp add: mult_right_mono)
  then have "rat_of_int (2 ^ (52 + k)) \<le> y"
    by (simp add: power_add)
  then have fl_lo: "2 ^ (52 + k) \<le> \<lfloor>y\<rfloor>"
    by (simp only: le_floor_iff)
  have "y < 2 ^ 53 * 2 ^ k"
    unfolding y using hi by (simp add: mult_strict_right_mono)
  then have "y < rat_of_int (2 ^ Suc (52 + k))"
    by (simp add: power_add)
  then have fl_hi: "\<lfloor>y\<rfloor> < 2 ^ Suc (52 + k)"
    by (simp only: floor_less_iff)
  have bl: "bit_length \<lfloor>y\<rfloor> = 53 + k"
    using bit_length_eq [OF fl_lo fl_hi] by simp
  have e: "(if bit_length \<lfloor>y\<rfloor> \<le> 53 then 0 else bit_length \<lfloor>y\<rfloor> - 53) = k"
    by (simp add: bl)
  have q: "y / 2 ^ k = x * 2 ^ j"
    by (simp add: y)
  have r: "rat_of_int m * 2 ^ k / 2 ^ 1074 = rat_of_int m / 2 ^ j"
    unfolding pow by simp
  have "m \<le> 2 ^ 53"
    unfolding m_def using hi by (intro round_half_even_le_int) simp
  then have "rat_of_int m \<le> rat_of_int (2 ^ 53)"
    by (simp only: of_int_le_iff)
  then have m53: "rat_of_int m \<le> 2 ^ 53"
    by simp
  have "rat_of_int m / 2 ^ j \<le> 2 ^ 53 / 2 ^ j"
    using m53 by (simp add: divide_right_mono)
  also have "\<dots> \<le> 2 ^ 53 / 1"
    by (rule divide_left_mono) simp_all
  also have "\<dots> < 2 ^ 1024"
    by simp
  finally have small: "\<not> 2 ^ 1024 \<le> rat_of_int m / 2 ^ j"
    by simp
  show ?thesis
    unfolding round_magnitude_def Let_def
    unfolding y_def [symmetric] e q m_def [symmetric] r
    using small by simp
qed

lemma floor_numeral_div:
  "\<lfloor>numeral a / numeral b :: rat\<rfloor> = numeral a div numeral b"
  using floor_divide_of_int_eq [of "numeral a" "numeral b", where ?'a = rat] by simp










section \<open>Task 2: theorems\<close>

lemma literal_0_05: "float_literal (5 / 100) = Finite False (7205759403792794 / 2 ^ 57)"
  using round_magnitude_normal [of 57 "5 / 100"]
  by (simp add: float_literal_def round_half_even_def Let_def floor_numeral_div)

lemma literal_0_15: "float_literal (15 / 100) = Finite False (5404319552844595 / 2 ^ 55)"
  using round_magnitude_normal [of 55 "15 / 100"]
  by (simp add: float_literal_def round_half_even_def Let_def floor_numeral_div)

lemma literal_0_10: "float_literal (10 / 100) = Finite False (7205759403792794 / 2 ^ 56)"
  using round_magnitude_normal [of 56 "10 / 100"]
  by (simp add: float_literal_def round_half_even_def Let_def floor_numeral_div)

lemma float_of_int_100: "float_of_int 100 = Inr (Finite False 100)"
  using round_magnitude_normal [of 46 100]
  by (simp add: float_of_int_def round_half_even_def Let_def)

lemma mul_100_0_05:
  "py_mul (PyInt 100) (PyFloat (Finite False (7205759403792794 / 2 ^ 57))) =
     Inr (PyFloat (Finite False 5))"
  using round_magnitude_normal [of 50 "100 * (7205759403792794 / 2 ^ 57)"]
  by (simp add: float_of_int_100 round_half_even_def Let_def floor_numeral_div)

lemma mul_100_0_15:
  "py_mul (PyInt 100) (PyFloat (Finite False (5404319552844595 / 2 ^ 55))) =
     Inr (PyFloat (Finite False 15))"
  using round_magnitude_normal [of 49 "100 * (5404319552844595 / 2 ^ 55)"]
  by (simp add: float_of_int_100 round_half_even_def Let_def floor_numeral_div)

lemma mul_100_0_10:
  "py_mul (PyInt 100) (PyFloat (Finite False (7205759403792794 / 2 ^ 56))) =
     Inr (PyFloat (Finite False 10))"
  using round_magnitude_normal [of 49 "100 * (7205759403792794 / 2 ^ 56)"]
  by (simp add: float_of_int_100 round_half_even_def Let_def floor_numeral_div)

lemma Regular_100:
  "RegularDiscount_calculate_discount (PyInt 100) =
     (Inr (PyFloat (Finite False 5)),
      [(''Applying 5% regular discount: '', PyFloat (Finite False 5))])"
  unfolding RegularDiscount_calculate_discount_def literal_0_05 mul_100_0_05 by simp

lemma VIP_100:
  "VIPDiscount_calculate_discount (PyInt 100) =
     (Inr (PyFloat (Finite False 15)),
      [(''Applying 15% VIP discount: '', PyFloat (Finite False 15))])"
  unfolding VIPDiscount_calculate_discount_def literal_0_15 mul_100_0_15 by simp

lemma Premium_100:
  "PremiumDiscount_calculate_discount (PyInt 100) =
     (Inr (PyFloat (Finite False 10)),
      [(''Applying 10% premium discount: '', PyFloat (Finite False 10))])"
  unfolding PremiumDiscount_calculate_discount_def literal_0_10 mul_100_0_10 by simp

text \<open>
  C1: with the strategy table the constructor builds, \<open>calculate_discount("Regular", 100)\<close>
  returns the float \<open>5.0\<close>, \<open>calculate_discount("VIP", 100)\<close> returns \<open>15.0\<close>,
  \<open>calculate_discount("Premium", 100)\<close> returns \<open>10.0\<close> and
  \<open>calculate_discount("Unknown", 100)\<close> returns the integer \<open>0\<close>. Each strategy prints
  one line with the discount; the unknown key prints nothing.
\<close>

theorem default_discounts:
  "calculate_discount DiscountCalculator_init ''Regular'' (PyInt 100) =
     (Inr (PyFloat (Finite False 5)),
      [(''Applying 5% regular discount: '', PyFloat (Finite False 5))]) \<and>
   calculate_discount DiscountCalculator_init ''VIP'' (PyInt 100) =
     (Inr (PyFloat (Finite False 15)),
      [(''Applying 15% VIP discount: '', PyFloat (Finite False 15))]) \<and>
   calculate_discount DiscountCalculator_init ''Premium'' (PyInt 100) =
     (Inr (PyFloat (Finite False 10)),
      [(''Applying 10% premium discount: '', PyFloat (Finite False 10))]) \<and>
   calculate_discount DiscountCalculator_init ''Unknown'' (PyInt 100) = (Inr (PyInt 0), [])"
  by (simp add: calculate_discount_def DiscountCalculator_init_def RegularDiscount_def
      VIPDiscount_def PremiumDiscount_def Regular_100 VIP_100 Premium_100)

text \<open>
  C2: for every calculator, every key its strategy table does not hold and every
  amount, \<open>calculate_discount\<close> returns the integer \<open>0\<close>, prints nothing and raises
  nothing.
\<close>

theorem unknown_key_returns_zero:
  assumes "strategies c customer_type = None"
  shows "calculate_discount c customer_type amount = (Inr (PyInt 0), [])"
  using assms by (simp add: calculate_discount_def)

theorem unknown_key_returns_zero_witness:
  "strategies DiscountCalculator_init ''Gold'' = None \<and>
   calculate_discount DiscountCalculator_init ''Gold'' (PyFloat (Infinity False)) =
     (Inr (PyInt 0), [])"
proof -
  have h: "strategies DiscountCalculator_init ''Gold'' = None"
    by (simp add: DiscountCalculator_init_def)
  show ?thesis
    using h unknown_key_returns_zero [OF h, of "PyFloat (Infinity False)"] by simp
qed

text \<open>
  C3, as stated: the calculator provides an operation \<open>register(key, strategy)\<close>. The
  class defines no method of that name.
\<close>

theorem register_not_defined: "''register'' \<notin> set DiscountCalculator_methods"
  by (simp add: DiscountCalculator_methods_def)

text \<open>
  C3, amended: the strategy table is fixed by the constructor, which binds the keys
  \<open>Regular\<close>, \<open>VIP\<close> and \<open>Premium\<close>. For every table, every key it binds to a strategy
  and every input, \<open>calculate_discount\<close> invokes that strategy on the input and
  returns what it returns, provided the strategy object counts as true (each
  strategy class of the source does); for one that counts as false it returns \<open>0\<close>.
  The dispatch does not depend on which keys the table holds, so a strategy is added
  by an entry in the constructor's table.
\<close>

theorem table_dispatch:
  assumes "strategies c customer_type = Some s"
  shows "calculate_discount c customer_type amount =
           (if truthy s then strategy_calculate_discount s amount else (Inr (PyInt 0), [])) \<and>
         dom (strategies DiscountCalculator_init) = {''Regular'', ''VIP'', ''Premium''}"
  using assms by (auto simp: calculate_discount_def DiscountCalculator_init_def)

theorem table_dispatch_witness:
  "strategies DiscountCalculator_init ''VIP'' = Some VIPDiscount \<and>
   calculate_discount DiscountCalculator_init ''VIP'' (PyInt 7) =
     strategy_calculate_discount VIPDiscount (PyInt 7) \<and>
   dom (strategies DiscountCalculator_init) = {''Regular'', ''VIP'', ''Premium''}"
proof -
  have h: "strategies DiscountCalculator_init ''VIP'' = Some VIPDiscount"
    by (simp add: DiscountCalculator_init_def)
  have t: "truthy VIPDiscount"
    by (simp add: VIPDiscount_def)
  show ?thesis
    using h t table_dispatch [OF h, of "PyInt 7"] by simp
qed

section \<open>Task 1: theorems\<close>

text \<open>
  C4: for every state of the manager, user identifier \<open>u\<close> and email \<open>e\<close>, after
  \<open>add_user(u, e)\<close> the lookup \<open>get_user_email(u)\<close> returns \<open>e\<close>, and after a
  following \<open>remove_user(u)\<close> it returns \<open>None\<close> (not found).
\<close>

theorem add_get_remove_get:
  "get_user_email (fst (add_user m u e)) u = Some e \<and>
   get_user_email (fst (remove_user (fst (add_user m u e)) u)) u = None"
proof -
  define m1 where "m1 = fst (add_user m u e)"
  have stored: "users m1 u = Some e"
    by (simp add: m1_def add_user_def)
  then have "u \<in> dom (users m1)"
    by blast
  then have "users (fst (remove_user m1 u)) u = None"
    by (simp add: remove_user_def)
  with stored show ?thesis
    by (simp add: get_user_email_def m1_def)
qed

text \<open>
  C5: for every state of the manager and every user identifier that is not a key of
  its dictionary, \<open>remove_user\<close> returns the manager unchanged and prints nothing;
  it has no way to raise.
\<close>

theorem remove_missing_user_noop:
  assumes "user_id \<notin> dom (users m)"
  shows "remove_user m user_id = (m, [])"
  using assms by (simp add: remove_user_def)

theorem remove_missing_user_noop_witness:
  "''u2'' \<notin> dom (users (fst (add_user UserManager_init ''u1'' ''a@x.com''))) \<and>
   remove_user (fst (add_user UserManager_init ''u1'' ''a@x.com'')) ''u2'' =
     (fst (add_user UserManager_init ''u1'' ''a@x.com''), [])"
proof -
  have h: "''u2'' \<notin> dom (users (fst (add_user UserManager_init ''u1'' ''a@x.com'')))"
    by (simp add: add_user_def UserManager_init_def)
  show ?thesis
    using h remove_missing_user_noop [OF h] by simp
qed

text \<open>
  C10: \<open>add_user\<close> on an identifier that is already stored overwrites its email:
  after \<open>add_user(u, e1)\<close> and \<open>add_user(u, e2)\<close>, \<open>get_user_email(u)\<close> returns \<open>e2\<close>.
\<close>

theorem add_user_overwrites:
  "get_user_email (fst (add_user (fst (add_user m u e1)) u e2)) u = Some e2"
proof -
  have "users (fst (add_user m' u e2)) u = Some e2" for m'
    by (simp add: add_user_def)
  then show ?thesis
    by (simp add: get_user_email_def)
qed

section \<open>Task 3: theorems\<close>






text \<open>
  C7: setting the width of a rectangle leaves its height as it was and sets the
  width to the new value, and the other way round; the rectangle after a setter is
  the rectangle built from the new value and the other, old dimension, so nothing
  else changed. A square has the one dimension \<open>size\<close>: after its setter it is the
  square built from the new value.
\<close>

theorem setters_frame:
  "Rectangle_height (Rectangle_set_width r v) = Rectangle_height r \<and>
   Rectangle_width (Rectangle_set_width r v) = v \<and>
   Rectangle_width (Rectangle_set_height r v) = Rectangle_width r \<and>
   Rectangle_height (Rectangle_set_height r v) = v \<and>
   Rectangle_set_width r v = Rectangle_init v (Rectangle_height r) \<and>
   Rectangle_set_height r v = Rectangle_init (Rectangle_width r) v \<and>
   Square_set_size s v = Square_init v"
  by (simp add: Rectangle_height_def Rectangle_width_def Rectangle_set_width_def
      Rectangle_set_height_def Rectangle_init_def Square_set_size_def Square_init_def)

section \<open>Task 4: theorems\<close>

text \<open>
  C8, as stated: invoking \<open>eat\<close> on a \<open>RobotWorker\<close> is not a failure at run time.
  The call raises \<open>AttributeError\<close> when it runs.
\<close>

theorem robot_eat_fails_at_run_time: "invoke RobotWorker ''eat'' = Inl AttributeError"
  by (simp add: invoke_def lookup_method_def mro_def)

text \<open>
  C8, amended: both worker classes can be instantiated. A \<open>HumanWorker\<close> is an
  instance of \<open>IWorkable\<close>, \<open>IEatable\<close> and \<open>ISleepable\<close>, and its \<open>work\<close>, \<open>eat\<close> and
  \<open>sleep\<close> run. A \<open>RobotWorker\<close> is an instance of \<open>IWorkable\<close> only and its \<open>work\<close>
  runs; invoking \<open>eat\<close> or \<open>sleep\<close> on it raises \<open>AttributeError\<close> at run time,
  which a caller avoids by the \<open>isinstance\<close> test.
\<close>

theorem worker_capabilities:
  "instantiate HumanWorker = Inr HumanWorker \<and>
   isinstance HumanWorker IWorkable \<and> isinstance HumanWorker IEatable \<and>
   isinstance HumanWorker ISleepable \<and>
   invoke HumanWorker ''work'' = Inr [''Human working...''] \<and>
   invoke HumanWorker ''eat'' = Inr [''Human eating...''] \<and>
   invoke HumanWorker ''sleep'' = Inr [''Human sleeping...''] \<and>
   instantiate RobotWorker = Inr RobotWorker \<and>
   isinstance RobotWorker IWorkable \<and> \<not> isinstance RobotWorker IEatable \<and>
   \<not> isinstance RobotWorker ISleepable \<and>
   invoke RobotWorker ''work'' = Inr [''Robot working...''] \<and>
   invoke RobotWorker ''eat'' = Inl AttributeError \<and>
   invoke RobotWorker ''sleep'' = Inl AttributeError"
  by (simp add: instantiate_def abstract_methods_def isinstance_def invoke_def
      lookup_method_def mro_def)

section \<open>Task 5: theorems\<close>

text \<open>
  C9: for every injected sender \<open>s\<close> and all \<open>user\<close>, \<open>contact\<close> and \<open>message\<close>,
  \<open>NotificationService(s).send_notification(user, contact, message)\<close> prints the
  processing line, then does what \<open>s.send(contact, message)\<close> does, with these two
  arguments as given: the lines of \<open>send\<close> follow the processing line and an
  exception of \<open>send\<close> is the exception of the call. The same equation holds for
  every sender, so the service does not branch on it; with the email sender the
  call prints the email line, with the SMS sender in its place the SMS line.
\<close>

theorem send_notification_delegates:
  "send_notification (NotificationService_init s) user contact message =
     (case fst (send s contact message) of Inl e \<Rightarrow> Inl e | Inr _ \<Rightarrow> Inr (),
      (''Processing notification for '' @ user @ ''...'') # snd (send s contact message)) \<and>
   send_notification (NotificationService_init EmailSender) ''John'' ''j@x.com'' ''hi'' =
     (Inr (), [''Processing notification for John...'',
               ''Sending email to j@x.com: '' @ [CHR 0x27] @ ''hi'' @ [CHR 0x27]]) \<and>
   send_notification (NotificationService_init SMSSender) ''John'' ''j@x.com'' ''hi'' =
     (Inr (), [''Processing notification for John...'',
               ''Sending SMS to j@x.com: '' @ [CHR 0x27] @ ''hi'' @ [CHR 0x27]])"
  by (simp add: send_notification_def NotificationService_init_def EmailSender_def
      SMSSender_def split: prod.split)

end
